theory Spec2Isabelle
  imports Main
begin

section \<open>The GitLab client of backstage-plugin-gitlab (\<open>src/api/GitlabCIClient.ts\<close>)\<close>

text \<open>
  The client is a TypeScript class whose methods are asynchronous: each awaits the
  discovery service, issues one or more HTTP GET requests through \<open>fetch\<close> and reshapes
  the decoded bodies. The embedding follows the declared types of the source:
  \<^item> text is a \<open>string\<close> (a list of 8-bit characters, read as the UTF-8 bytes of the
    JavaScript string; the prefixes the code tests, \<open>./\<close> and \<open>@\<close>, are ASCII);
  \<^item> an optional parameter \<open>p?: T\<close> is a \<open>T option\<close>, \<open>None\<close> being \<open>undefined\<close>;
    a result \<open>T | null\<close> is a \<open>T option\<close>, \<open>None\<close> being \<open>null\<close>;
  \<^item> a rejected promise or a \<open>throw\<close> is the left summand of \<open>error + 'a\<close>;
  \<^item> every method returns its outcome together with the list of URLs it passed to
    \<open>fetch\<close>, in the order of the calls.
\<close>

subsection \<open>Errors and the asynchronous result type\<close>

text \<open>
  \<open>Rejected\<close> is a rejection that comes from the environment (the discovery service,
  \<open>fetch\<close>, or \<open>response.json()\<close>); \<open>Error\<close> is the \<open>new Error(message)\<close> thrown by
  the client itself.
\<close>

datatype error = Rejected string | Error string

type_synonym 'a io = "(error + 'a) \<times> string list"

definition return :: "'a \<Rightarrow> 'a io" where
  "return x = (Inr x, [])"

definition throw :: "error \<Rightarrow> 'a io" where
  "throw e = (Inl e, [])"

text \<open>\<open>await m\<close> followed by the rest of the method: an error of \<open>m\<close> ends the method.\<close>

definition bind :: "'a io \<Rightarrow> ('a \<Rightarrow> 'b io) \<Rightarrow> 'b io" where
  "bind m f =
     (case m of
        (Inl e, t) \<Rightarrow> (Inl e, t)
      | (Inr x, t) \<Rightarrow> (case f x of (r, t') \<Rightarrow> (r, t @ t')))"

subsection \<open>Platform functions\<close>

text \<open>
  \<open>String.prototype.startsWith\<close>; \<open>slice(n)\<close> with a non-negative \<open>n\<close> is \<open>drop n\<close>.
\<close>

definition startsWith :: "string \<Rightarrow> string \<Rightarrow> bool" where
  "startsWith s p = (take (length p) s = p)"

text \<open>
  The values a query mapping \<open>{ [key in string]: any }\<close> holds at the call sites of the
  client: \<open>undefined\<close>, \<open>null\<close>, booleans, numbers and strings. \<open>JNum n\<close> stands for
  the number whose value is the safe integer \<open>n\<close> (\<open>Number.isSafeInteger\<close>, below
  \<open>2^53\<close> in absolute value), for which \<open>Number::toString\<close> is the decimal numeral.
  Fractions, \<open>NaN\<close>, the infinities and larger integers, which JavaScript rounds and
  prints in another form, have no value in this type.
\<close>

datatype jsvalue = JUndefined | JNull | JBool bool | JNum int | JStr string

definition digit_char :: "nat \<Rightarrow> char" where
  "digit_char n = char_of (48 + n)"

fun digits :: "nat \<Rightarrow> string" where
  "digits n = (if n < 10 then [digit_char n] else digits (n div 10) @ [digit_char (n mod 10)])"

declare digits.simps [simp del]

text \<open>The abstract operation \<open>ToString\<close> of ECMAScript on these values.\<close>

fun ToString :: "jsvalue \<Rightarrow> string" where
  "ToString JUndefined = ''undefined''"
| "ToString JNull = ''null''"
| "ToString (JBool b) = (if b then ''true'' else ''false'')"
| "ToString (JNum n) = (if n < 0 then ''-'' @ digits (nat (- n)) else digits (nat n))"
| "ToString (JStr s) = s"

text \<open>String concatenation \<open>'projects/' + projectID\<close> with an optional string.\<close>

fun str :: "string option \<Rightarrow> string" where
  "str None = ''undefined''"
| "str (Some s) = s"

definition hex_char :: "nat \<Rightarrow> char" where
  "hex_char n = (if n < 10 then char_of (48 + n) else char_of (55 + n))"

definition percent :: "char \<Rightarrow> string" where
  "percent c = [CHR ''%'', hex_char (of_char c div 16), hex_char (of_char c mod 16)]"

definition alphanumeric :: "char \<Rightarrow> bool" where
  "alphanumeric c =
     (let n = (of_char c :: nat) in
      (48 \<le> n \<and> n \<le> 57) \<or> (65 \<le> n \<and> n \<le> 90) \<or> (97 \<le> n \<and> n \<le> 122))"

text \<open>
  \<open>encodeURI\<close> and \<open>encodeURIComponent\<close> (ECMAScript \<open>Encode\<close>): every byte outside
  the unescaped set becomes \<open>%XX\<close>.
\<close>

definition encodeURI :: "string \<Rightarrow> string" where
  "encodeURI s =
     concat (map (\<lambda>c. if alphanumeric c \<or> c \<in> set '';/?:@&=+$,#-_.!~*'()'' then [c]
                       else percent c) s)"

definition encodeURIComponent :: "string \<Rightarrow> string" where
  "encodeURIComponent s =
     concat (map (\<lambda>c. if alphanumeric c \<or> c \<in> set ''-_.!~*'()'' then [c]
                       else percent c) s)"

text \<open>
  The \<open>application/x-www-form-urlencoded\<close> serializer of the URL Standard, which
  \<open>URLSearchParams.prototype.toString\<close> runs: a space becomes \<open>+\<close>, alphanumerics
  and \<open>*-._\<close> stay, every other byte becomes \<open>%XX\<close>.
\<close>

definition form_encode :: "string \<Rightarrow> string" where
  "form_encode s =
     concat (map (\<lambda>c. if c = CHR '' '' then ''+''
                       else if alphanumeric c \<or> c \<in> set ''*-._'' then [c]
                       else percent c) s)"

fun intercalate :: "string \<Rightarrow> string list \<Rightarrow> string" where
  "intercalate sep [] = []"
| "intercalate sep [x] = x"
| "intercalate sep (x # y # ys) = x @ sep @ intercalate sep (y # ys)"

text \<open>
  \<open>new URLSearchParams(query).toString()\<close>. The constructor converts the object to a
  \<open>record<USVString, USVString>\<close>: one pair for each own enumerable property, in
  property order, the value converted with \<open>ToString\<close>; here the object is the list
  of its properties in that order. The serializer joins \<open>name=value\<close> with \<open>&\<close>.
\<close>

definition URLSearchParams_toString :: "(string \<times> jsvalue) list \<Rightarrow> string" where
  "URLSearchParams_toString query =
     intercalate ''&''
       (map (\<lambda>(k, v). form_encode k @ ''='' @ form_encode (ToString v)) query)"

subsection \<open>The client and its environment\<close>

text \<open>\<open>DiscoveryApi.getBaseUrl(pluginId)\<close>: resolves to a URL or rejects.\<close>

record DiscoveryApi =
  getBaseUrl :: "string \<Rightarrow> error + string"

record GitlabCIClient =
  discoveryApi :: DiscoveryApi
  baseUrl :: string
  proxyPath :: string
  codeOwnersPath :: string

text \<open>\<open>a || b\<close> on an optional string: \<open>undefined\<close> and the empty string are falsy.\<close>

fun or_else :: "string option \<Rightarrow> string \<Rightarrow> string" where
  "or_else None d = d"
| "or_else (Some s) d = (if s = [] then d else s)"

text \<open>The constructor; \<open>baseUrl\<close> has the default \<open>https://gitlab.com/\<close>.\<close>

definition new_GitlabCIClient ::
  "DiscoveryApi \<Rightarrow> string option \<Rightarrow> string option \<Rightarrow> string option \<Rightarrow> GitlabCIClient" where
  "new_GitlabCIClient discoveryApi' baseUrl' proxyPath' codeOwnersPath' =
     (let b = (case baseUrl' of None \<Rightarrow> ''https://gitlab.com/'' | Some u \<Rightarrow> u) in
      \<lparr> discoveryApi = discoveryApi',
        baseUrl = (if b \<noteq> [] \<and> last b = CHR ''/'' then b else b @ ''/''),
        proxyPath = or_else proxyPath' ''/gitlabci'',
        codeOwnersPath = or_else codeOwnersPath' ''CODEOWNERS'' \<rparr>)"

text \<open>
  What \<open>fetch(url)\<close> resolves to: the HTTP status and the outcome of
  \<open>response.json()\<close>, read at the type \<open>T\<close> of the call \<open>callApi<T>\<close> (the cast
  \<open>as T\<close> of the source is unchecked). \<open>fetch\<close> itself may reject.
\<close>

record 'a Response =
  status :: nat
  json :: "error + 'a"

type_synonym 'a fetch = "string \<Rightarrow> error + 'a Response"

definition callApi ::
  "GitlabCIClient \<Rightarrow> 'a fetch \<Rightarrow> string \<Rightarrow> (string \<times> jsvalue) list \<Rightarrow> 'a option io" where
  "callApi this fetch path query =
     (case getBaseUrl (discoveryApi this) ''proxy'' of
        Inl e \<Rightarrow> (Inl e, [])
      | Inr base \<Rightarrow>
          (let apiUrl = base @ proxyPath this;
               url = apiUrl @ ''/'' @ path @ ''?'' @ URLSearchParams_toString query
           in case fetch url of
                Inl e \<Rightarrow> (Inl e, [url])
              | Inr response \<Rightarrow>
                  if status response = 200
                  then (case json response of
                          Inl e \<Rightarrow> (Inl e, [url])
                        | Inr body \<Rightarrow> (Inr (Some body), [url]))
                  else (Inr None, [url])))"

subsection \<open>Records of \<open>components/types\<close>\<close>

text \<open>
  Modelled from the spec: the record types \<open>ContributorData\<close>, \<open>PipelineObject\<close> and
  \<open>IssueObject\<close> are declared in \<open>components/types\<close>, which is not among the
  sources. The spec's data model gives a contributor the fields \<open>name\<close>, \<open>email\<close>,
  \<open>commits\<close>, \<open>additions\<close>, \<open>deletions\<close> and the optional \<open>avatar_url\<close>, and lets
  pipeline and issue records carry an optional derived \<open>project_name\<close>. The records
  declare the fields the client reads or writes; the extension slot of each record
  scheme stands for all the others.
\<close>

record ContributorData =
  name :: string
  email :: string
  avatar_url :: "string option"

record 'v PipelineObject =
  project_name :: "'v option"

record 'v IssueObject =
  project_name :: "'v option"

text \<open>
  A \<open>Record<string, unknown>\<close>: a mapping from property names to values of an
  unknown type; a missing property reads as \<open>undefined\<close>.
\<close>

type_synonym 'v Record = "string \<rightharpoonup> 'v"

text \<open>\<open>projectObj?.name\<close>\<close>

fun name_of :: "'v Record option \<Rightarrow> 'v option" where
  "name_of None = None"
| "name_of (Some projectObj) = projectObj ''name''"

subsection \<open>Resource accessors\<close>

text \<open>
  A summary method returns an object with a single property, such as
  \<open>{ getPipelinesData: pipelineObjects }\<close>; the model returns the value of that
  property. A method that awaits calls of \<open>callApi\<close> at two body types takes
  \<open>fetch\<close> at both types.
\<close>

definition getPipelineSummary ::
  "GitlabCIClient \<Rightarrow> ('v, 'z) PipelineObject_scheme list fetch \<Rightarrow> 'v Record fetch \<Rightarrow>
   string option \<Rightarrow> ('v, 'z) PipelineObject_scheme list option io" where
  "getPipelineSummary this fetch fetch' projectID =
     bind (callApi this fetch (''projects/'' @ str projectID @ ''/pipelines'') [])
       (\<lambda>pipelineObjects.
     bind (callApi this fetch' (''projects/'' @ str projectID) [])
       (\<lambda>projectObj.
     return
       (case pipelineObjects of
          None \<Rightarrow> None
        | Some elements \<Rightarrow>
            Some (map (\<lambda>element.
                    element\<lparr>PipelineObject.project_name := name_of projectObj\<rparr>) elements))))"

definition getIssuesSummary ::
  "GitlabCIClient \<Rightarrow> ('v, 'z) IssueObject_scheme list fetch \<Rightarrow> 'v Record fetch \<Rightarrow>
   string \<Rightarrow> ('v, 'z) IssueObject_scheme list option io" where
  "getIssuesSummary this fetch fetch' projectId =
     bind (callApi this fetch (''projects/'' @ projectId @ ''/issues'') [])
       (\<lambda>issuesObject.
     bind (callApi this fetch' (''projects/'' @ projectId) [])
       (\<lambda>projectObj.
     return
       (case issuesObject of
          None \<Rightarrow> None
        | Some elements \<Rightarrow>
            Some (map (\<lambda>element.
                    element\<lparr>IssueObject.project_name := name_of projectObj\<rparr>) elements))))"

definition getProjectName ::
  "GitlabCIClient \<Rightarrow> 'v Record fetch \<Rightarrow> string option \<Rightarrow> 'v option io" where
  "getProjectName this fetch projectID =
     bind (callApi this fetch (''projects/'' @ str projectID) [])
       (\<lambda>projectObj. return (name_of projectObj))"

definition getMergeRequestsSummary ::
  "GitlabCIClient \<Rightarrow> 'm list fetch \<Rightarrow> string option \<Rightarrow> 'm list option io" where
  "getMergeRequestsSummary this fetch projectID =
     callApi this fetch (''projects/'' @ str projectID @ ''/merge_requests'') []"

text \<open>\<open>{ per_page: count }\<close> with the optional number \<open>count\<close>.\<close>

fun number :: "int option \<Rightarrow> jsvalue" where
  "number None = JUndefined"
| "number (Some n) = JNum n"

definition getMergeRequestsStatusSummary ::
  "GitlabCIClient \<Rightarrow> 'm list fetch \<Rightarrow> string option \<Rightarrow> int option \<Rightarrow> 'm list option io" where
  "getMergeRequestsStatusSummary this fetch projectID count =
     callApi this fetch (''projects/'' @ str projectID @ ''/merge_requests'')
       [(''per_page'', number count)]"

definition getLanguagesSummary ::
  "GitlabCIClient \<Rightarrow> 'v Record fetch \<Rightarrow> string option \<Rightarrow> 'v Record option io" where
  "getLanguagesSummary this fetch projectID =
     callApi this fetch (''projects/'' @ str projectID @ ''/languages'') []"

text \<open>
  \<open>getProjectDetails\<close> returns \<open>undefined\<close> (\<open>None\<close>) without any request when the
  slug is \<open>undefined\<close> or empty, and otherwise what \<open>callApi\<close> returns.
\<close>

definition getProjectDetails ::
  "GitlabCIClient \<Rightarrow> 'v Record fetch \<Rightarrow> string option \<Rightarrow> 'v Record option option io" where
  "getProjectDetails this fetch projectSlug =
     (case projectSlug of
        None \<Rightarrow> return None
      | Some slug \<Rightarrow>
          if slug \<noteq> []
          then bind (callApi this fetch (''projects/'' @ encodeURIComponent slug) [])
                 (\<lambda>projectDetails. return (Some projectDetails))
          else return None)"

definition retryPipelineBuild ::
  "GitlabCIClient \<Rightarrow> 'v Record fetch \<Rightarrow> string option \<Rightarrow> string option \<Rightarrow>
   'v Record option io" where
  "retryPipelineBuild this fetch projectID pipelineID =
     callApi this fetch
       (''projects/'' @ str projectID @ ''/pipelines/'' @ str pipelineID @ ''/retry'') []"

subsection \<open>Contributor enrichment\<close>

text \<open>
  The callback of \<open>userProfile.forEach\<close>, for the contributor at index \<open>i\<close>: an entry
  of the same name writes its \<open>avatar_url\<close> into \<open>contributorsData[i]\<close>.
\<close>

definition setAvatar ::
  "nat \<Rightarrow> 'z ContributorData_scheme list \<Rightarrow> 'y ContributorData_scheme \<Rightarrow>
   'z ContributorData_scheme list" where
  "setAvatar i contributorsData userProfileElement =
     (if name userProfileElement = name (contributorsData ! i)
      then contributorsData
             [i := (contributorsData ! i)\<lparr>avatar_url := avatar_url userProfileElement\<rparr>]
      else contributorsData)"

definition forEach :: "'a list \<Rightarrow> ('s \<Rightarrow> 'a \<Rightarrow> 's) \<Rightarrow> 's \<Rightarrow> 's" where
  "forEach xs callback s = foldl callback s xs"

text \<open>The \<open>for\<close> loop of \<open>getUserProfilesData\<close>, from index \<open>i\<close> on.\<close>

function getUserProfilesData_loop ::
  "GitlabCIClient \<Rightarrow> 'y ContributorData_scheme list fetch \<Rightarrow> nat \<Rightarrow>
   'z ContributorData_scheme list \<Rightarrow> 'z ContributorData_scheme list io" where
  "getUserProfilesData_loop this fetch i contributorsData =
     (if i < length contributorsData
      then (case callApi this fetch ''users''
                   [(''search'', JStr (email (contributorsData ! i)))] of
              (Inl e, t) \<Rightarrow> (Inl e, t)
            | (Inr userProfile, t) \<Rightarrow>
                (case getUserProfilesData_loop this fetch (i + 1)
                        (case userProfile of
                           None \<Rightarrow> contributorsData
                         | Some entries \<Rightarrow> forEach entries (setAvatar i) contributorsData) of
                   (r, t') \<Rightarrow> (r, t @ t')))
      else (Inr contributorsData, []))"
  by pat_completeness auto
termination
proof (relation "measure (\<lambda>(this, fetch, i, contributorsData). length contributorsData - i)")
  show "wf (measure (\<lambda>(this :: GitlabCIClient, fetch :: 'y ContributorData_scheme list fetch,
          i :: nat, contributorsData :: 'z ContributorData_scheme list).
            length contributorsData - i))"
    by simp
next
  fix this :: GitlabCIClient and fetch :: "'y ContributorData_scheme list fetch"
    and i :: nat and contributorsData :: "'z ContributorData_scheme list"
    and userProfile :: "'y ContributorData_scheme list option"
  assume lt: "i < length contributorsData"
  have len: "length (foldl (setAvatar i) cd es) = length cd"
    for cd :: "'z ContributorData_scheme list" and es :: "'y ContributorData_scheme list"
    by (induction es arbitrary: cd) (simp_all add: setAvatar_def)
  show "((this, fetch, i + 1,
          case userProfile of None \<Rightarrow> contributorsData
          | Some entries \<Rightarrow> forEach entries (setAvatar i) contributorsData),
         this, fetch, i, contributorsData)
        \<in> measure (\<lambda>(this, fetch, i, contributorsData). length contributorsData - i)"
    using lt by (cases userProfile) (simp_all add: forEach_def len)
qed

declare getUserProfilesData_loop.simps [simp del]

text \<open>
  \<open>getUserProfilesData\<close>: the loop condition \<open>contributorsData && ...\<close> ends the loop
  at once when the argument is \<open>null\<close>, which is then returned.
\<close>

definition getUserProfilesData ::
  "GitlabCIClient \<Rightarrow> 'y ContributorData_scheme list fetch \<Rightarrow>
   'z ContributorData_scheme list option \<Rightarrow> 'z ContributorData_scheme list option io" where
  "getUserProfilesData this fetch contributorsData =
     (case contributorsData of
        None \<Rightarrow> return None
      | Some cd \<Rightarrow> bind (getUserProfilesData_loop this fetch 0 cd) (\<lambda>cd'. return (Some cd')))"

definition getContributorsSummary ::
  "GitlabCIClient \<Rightarrow> 'z ContributorData_scheme list fetch \<Rightarrow>
   'y ContributorData_scheme list fetch \<Rightarrow> string option \<Rightarrow>
   'z ContributorData_scheme list option io" where
  "getContributorsSummary this fetch fetch' projectID =
     bind (callApi this fetch (''projects/'' @ str projectID @ ''/repository/contributors'')
             [(''sort'', JStr ''desc'')])
       (\<lambda>contributorsData. getUserProfilesData this fetch' contributorsData)"

subsection \<open>Code owners and user lookup\<close>

text \<open>
  \<open>parseCodeOwners\<close> is imported from \<open>components/utils\<close>, which is not among the
  sources: \<open>getCodeOwners\<close> takes it as a parameter.
\<close>

definition getCodeOwners ::
  "GitlabCIClient \<Rightarrow> string fetch \<Rightarrow> (string \<Rightarrow> 'o) \<Rightarrow> string option \<Rightarrow> string option \<Rightarrow>
   string option \<Rightarrow> 'o io" where
  "getCodeOwners this fetch parseCodeOwners projectID branch filePath =
     (let branch = (case branch of None \<Rightarrow> ''HEAD'' | Some b \<Rightarrow> b);
          filePath = (case filePath of None \<Rightarrow> codeOwnersPath this | Some p \<Rightarrow> p);
          filePath = (if startsWith filePath ''./'' then drop 2 filePath else filePath)
      in bind (callApi this fetch
                 (''projects/'' @ str projectID @ ''/repository/files/'' @ encodeURI filePath
                    @ ''/raw'')
                 [(''ref'', JStr branch)])
           (\<lambda>codeOwnersStr. return (parseCodeOwners (or_else codeOwnersStr []))))"

text \<open>\<open>xs?.[0]\<close> on a nullable array.\<close>

fun first :: "'a list option \<Rightarrow> 'a option" where
  "first None = None"
| "first (Some []) = None"
| "first (Some (x # xs)) = Some x"

text \<open>A \<open>UserDetail\<close> is an object, hence truthy: \<open>!userDetail\<close> holds of \<open>undefined\<close> only.\<close>

definition getUserDetail :: "GitlabCIClient \<Rightarrow> 'u list fetch \<Rightarrow> string \<Rightarrow> 'u io" where
  "getUserDetail this fetch username =
     (let username = (if startsWith username ''@'' then drop 1 username else username)
      in bind (callApi this fetch ''users'' [(''username'', JStr username)])
           (\<lambda>candidates.
              case first candidates of
                None \<Rightarrow> throw (Error (''user '' @ username @ '' does not exist''))
              | Some userDetail \<Rightarrow> return userDetail))"

subsection \<open>The parser of code-owner files\<close>

record OwnerEntry =
  pattern :: string
  owners :: "string list"

text \<open>\<open>split_on c s\<close>: the pieces of \<open>s\<close> between the occurrences of \<open>c\<close>.\<close>

fun split_on :: "char \<Rightarrow> string \<Rightarrow> string list" where
  "split_on c [] = [[]]"
| "split_on c (x # xs) =
     (if x = c then [] # split_on c xs
      else (case split_on c xs of [] \<Rightarrow> [[x]] | w # ws \<Rightarrow> (x # w) # ws))"

text \<open>
  Modelled from the spec: \<open>parseCodeOwners\<close> of \<open>components/utils\<close> is not among the
  sources. The spec leaves its grammar out of scope and says only that an ownership
  entry is a parsed line \<open>{ pattern, owners }\<close> and that the empty text has no entries:
  every line that holds at least one word gives one entry, its first word the pattern
  and the other words the owners.
\<close>

definition parseCodeOwners :: "string \<Rightarrow> OwnerEntry list" where
  "parseCodeOwners text =
     concat (map (\<lambda>line. case filter (\<lambda>w. w \<noteq> []) (split_on CHR '' '' line) of
                            [] \<Rightarrow> []
                          | p # os \<Rightarrow> [\<lparr> pattern = p, owners = os \<rparr>])
                 (split_on CHR 0x0A text))"

subsection \<open>A stub environment\<close>

text \<open>
  A discovery service that resolves every plugin id below \<open>http://host/api/\<close>, a client
  constructed with its defaults, and a \<open>fetch\<close> that answers every URL with the same
  status and decoded body.
\<close>

definition stub_discovery :: DiscoveryApi where
  "stub_discovery = \<lparr> getBaseUrl = (\<lambda>pluginId. Inr (''http://host/api/'' @ pluginId)) \<rparr>"

definition stub_client :: GitlabCIClient where
  "stub_client = new_GitlabCIClient stub_discovery None None None"

definition respond :: "nat \<Rightarrow> 'a \<Rightarrow> 'a fetch" where
  "respond code body = (\<lambda>url. Inr \<lparr> status = code, json = Inr body \<rparr>)"

text \<open>Two pipeline records, one issue record and a project object for the stub.\<close>

definition pipelines :: "string PipelineObject list" where
  "pipelines = [\<lparr> PipelineObject.project_name = None \<rparr>,
                \<lparr> PipelineObject.project_name = Some ''stale'' \<rparr>]"

definition issues :: "string IssueObject list" where
  "issues = [\<lparr> IssueObject.project_name = None \<rparr>]"

definition project :: "string Record" where
  "project = [''name'' \<mapsto> ''demo'']"

subsection \<open>Notions used in the statements\<close>

text \<open>
  The entries of a search response that bear the name of a contributor, and what one
  pass of the loop body makes of a contributor, given what its search returned.
\<close>

definition matches :: "'y ContributorData_scheme list \<Rightarrow> 'z ContributorData_scheme \<Rightarrow> 'y ContributorData_scheme list" where
  "matches entries contributor = filter (\<lambda>entry. name entry = name contributor) entries"

definition enriched :: "'y ContributorData_scheme list option \<Rightarrow> 'z ContributorData_scheme \<Rightarrow> 'z ContributorData_scheme" where
  "enriched userProfile contributor =
     (case userProfile of
        None \<Rightarrow> contributor
      | Some entries \<Rightarrow>
          if matches entries contributor = [] then contributor
          else contributor\<lparr>avatar_url := avatar_url (last (matches entries contributor))\<rparr>)"

text \<open>
  Two readings that follow the words of the spec, for comparison with the code: a
  query string that leaves out the entries whose value is \<open>undefined\<close>, and the avatar
  of the first entry that bears the contributor's name.
\<close>

definition omitting_undefined :: "(string \<times> jsvalue) list \<Rightarrow> string" where
  "omitting_undefined query = URLSearchParams_toString (filter (\<lambda>(k, v). v \<noteq> JUndefined) query)"

definition first_match_avatar ::
  "'y ContributorData_scheme list \<Rightarrow> 'z ContributorData_scheme \<Rightarrow> string option" where
  "first_match_avatar entries contributor =
     (case find (\<lambda>entry. name entry = name contributor) entries of
        None \<Rightarrow> avatar_url contributor
      | Some entry \<Rightarrow> avatar_url entry)"

text \<open>
  Two contributors, a user directory in which two entries are named \<open>Ann\<close>, a \<open>fetch\<close>
  that answers the search for Ann's email with status 500, and a \<open>fetch\<close> that
  rejects the search for Bob's email.
\<close>

definition ann :: ContributorData where
  "ann = \<lparr> name = ''Ann'', email = ''ann@x.org'', avatar_url = None \<rparr>"

definition bob :: ContributorData where
  "bob = \<lparr> name = ''Bob'', email = ''bob@x.org'', avatar_url = None \<rparr>"

definition profiles :: "ContributorData list" where
  "profiles = [\<lparr> name = ''Ann'', email = [], avatar_url = Some ''first.png'' \<rparr>,
               \<lparr> name = ''Bob'', email = [], avatar_url = Some ''bob.png'' \<rparr>,
               \<lparr> name = ''Ann'', email = [], avatar_url = Some ''second.png'' \<rparr>]"

definition no_data_for_ann :: "ContributorData list fetch" where
  "no_data_for_ann url =
     (if url = ''http://host/api/proxy/gitlabci/users?search=ann%40x.org''
      then Inr \<lparr> status = 500, json = Inr [] \<rparr>
      else Inr \<lparr> status = 200, json = Inr profiles \<rparr>)"

definition rejecting_for_bob :: "ContributorData list fetch" where
  "rejecting_for_bob url =
     (if url = ''http://host/api/proxy/gitlabci/users?search=bob%40x.org''
      then Inl (Rejected ''network error'')
      else Inr \<lparr> status = 200, json = Inr profiles \<rparr>)"


definition undecodable_for_bob :: "ContributorData list fetch" where
  "undecodable_for_bob url =
     (if url = ''http://host/api/proxy/gitlabci/users?search=bob%40x.org''
      then Inr \<lparr> status = 200, json = Inl (Rejected ''SyntaxError: not JSON'') \<rparr>
      else Inr \<lparr> status = 200, json = Inr profiles \<rparr>)"

section \<open>Properties\<close>

lemma stub_client_simps:
  "getBaseUrl (discoveryApi stub_client) p = Inr (''http://host/api/'' @ p)"
  "proxyPath stub_client = ''/gitlabci''"
  "codeOwnersPath stub_client = ''CODEOWNERS''"
  "baseUrl stub_client = ''https://gitlab.com/''"
  by (simp_all add: stub_client_def new_GitlabCIClient_def stub_discovery_def)

subsection \<open>The executor\<close>

lemma callApi_discovery_rejected:
  "getBaseUrl (discoveryApi this) ''proxy'' = Inl e \<Longrightarrow> callApi this fetch path query = (Inl e, [])"
  by (simp add: callApi_def)

lemma callApi_fetch_rejected:
  "getBaseUrl (discoveryApi this) ''proxy'' = Inr base \<Longrightarrow>
   fetch (base @ proxyPath this @ ''/'' @ path @ ''?'' @ URLSearchParams_toString query) = Inl e \<Longrightarrow>
   callApi this fetch path query
   = (Inl e, [base @ proxyPath this @ ''/'' @ path @ ''?'' @ URLSearchParams_toString query])"
  by (simp add: callApi_def Let_def)

lemma callApi_json_rejected:
  "getBaseUrl (discoveryApi this) ''proxy'' = Inr base \<Longrightarrow>
   fetch (base @ proxyPath this @ ''/'' @ path @ ''?'' @ URLSearchParams_toString query) = Inr response \<Longrightarrow>
   status response = 200 \<Longrightarrow> json response = Inl e \<Longrightarrow>
   callApi this fetch path query
   = (Inl e, [base @ proxyPath this @ ''/'' @ path @ ''?'' @ URLSearchParams_toString query])"
  by (simp add: callApi_def Let_def)




subsection \<open>Code owners\<close>

text \<open>
  Claim C4. For every project, branch and file path: when the request that
  \<open>getCodeOwners\<close> issues for the raw file is answered with a status other than 200
  (so that the fetch yields no content), the content is taken to be the empty string,
  and with a parser that has no entries for the empty text the method returns the
  empty ownership list instead of raising an error.
\<close>

theorem getCodeOwners_missing:
  assumes "snd (getCodeOwners this fetch parseCodeOwners' projectID branch filePath) = [url]"
    and "fetch url = Inr response"
    and "status response \<noteq> 200"
    and "parseCodeOwners' [] = []"
  shows "fst (getCodeOwners this fetch parseCodeOwners' projectID branch filePath) = Inr []"
  using assms
  by (auto simp add: getCodeOwners_def callApi_def Let_def bind_def return_def
      split: sum.splits if_splits)

theorem getCodeOwners_missing_witness:
  "snd (getCodeOwners stub_client (respond 404 []) parseCodeOwners (Some ''7'') None None)
     = [''http://host/api/proxy/gitlabci/projects/7/repository/files/CODEOWNERS/raw?ref=HEAD'']
   \<and> respond 404 []
         ''http://host/api/proxy/gitlabci/projects/7/repository/files/CODEOWNERS/raw?ref=HEAD''
       = Inr \<lparr> status = 404, json = Inr [] \<rparr>
   \<and> status \<lparr> status = 404, json = Inr [] :: error + string \<rparr> \<noteq> 200
   \<and> parseCodeOwners [] = []
   \<and> fst (getCodeOwners stub_client (respond 404 []) parseCodeOwners (Some ''7'') None None)
       = Inr []"
proof -
  have u: "snd (getCodeOwners stub_client (respond 404 []) parseCodeOwners (Some ''7'') None None)
     = [''http://host/api/proxy/gitlabci/projects/7/repository/files/CODEOWNERS/raw?ref=HEAD'']"
    by (simp add: getCodeOwners_def callApi_def Let_def bind_def return_def stub_client_simps
        respond_def startsWith_def encodeURI_def URLSearchParams_toString_def form_encode_def
        alphanumeric_def)
  have r: "respond 404 []
         ''http://host/api/proxy/gitlabci/projects/7/repository/files/CODEOWNERS/raw?ref=HEAD''
       = Inr \<lparr> status = 404, json = Inr [] \<rparr>"
    by (simp add: respond_def)
  have s: "status \<lparr> status = 404, json = Inr [] :: error + string \<rparr> \<noteq> 200"
    by simp
  have p: "parseCodeOwners [] = []"
    by (simp add: parseCodeOwners_def)
  from getCodeOwners_missing [OF u r s p] u r s p show ?thesis
    by blast
qed



subsection \<open>User lookup by handle\<close>

lemma stub_users_request:
  "callApi stub_client (respond 200 body) ''users'' [(''username'', JStr ''nobody'')]
   = (Inr (Some body), [''http://host/api/proxy/gitlabci/users?username=nobody''])"
  by (simp add: callApi_def Let_def stub_client_simps respond_def
      URLSearchParams_toString_def form_encode_def alphanumeric_def)

text \<open>
  Claim C7. When the username search has returned, \<open>getUserDetail\<close> raises its error
  (\<open>user ... does not exist\<close>) if and only if the search returned no candidates (no data
  or an empty list); when it returned one or more candidates, the first one is the
  result, whatever the others are.
\<close>

theorem getUserDetail_not_found:
  assumes "callApi this fetch ''users''
             [(''username'',
               JStr (if startsWith username ''@'' then drop 1 username else username))]
           = (Inr candidates, t)"
  shows "((\<exists>message. fst (getUserDetail this fetch username) = Inl (Error message))
            \<longleftrightarrow> (candidates = None \<or> candidates = Some []))
       \<and> (\<forall>x xs. candidates = Some (x # xs) \<longrightarrow>
            fst (getUserDetail this fetch username) = Inr x)"
proof (cases candidates)
  case None
  with assms show ?thesis
    by (simp add: getUserDetail_def Let_def bind_def throw_def)
next
  case (Some cs)
  with assms show ?thesis
    by (cases cs) (simp_all add: getUserDetail_def Let_def bind_def throw_def return_def)
qed

theorem getUserDetail_not_found_witness:
  "callApi stub_client (respond 200 ([] :: string list)) ''users''
     [(''username'', JStr (if startsWith ''nobody'' ''@'' then drop 1 ''nobody'' else ''nobody''))]
     = (Inr (Some []), [''http://host/api/proxy/gitlabci/users?username=nobody''])
   \<and> fst (getUserDetail stub_client (respond 200 ([] :: string list)) ''nobody'')
       = Inl (Error ''user nobody does not exist'')
   \<and> callApi stub_client (respond 200 [''first'', ''second'']) ''users''
     [(''username'', JStr (if startsWith ''nobody'' ''@'' then drop 1 ''nobody'' else ''nobody''))]
     = (Inr (Some [''first'', ''second'']), [''http://host/api/proxy/gitlabci/users?username=nobody''])
   \<and> fst (getUserDetail stub_client (respond 200 [''first'', ''second'']) ''nobody'')
       = Inr ''first''"
proof -
  have a: "callApi stub_client (respond 200 ([] :: string list)) ''users''
     [(''username'', JStr (if startsWith ''nobody'' ''@'' then drop 1 ''nobody'' else ''nobody''))]
     = (Inr (Some []), [''http://host/api/proxy/gitlabci/users?username=nobody''])"
    by (simp add: startsWith_def stub_users_request)
  have b: "callApi stub_client (respond 200 [''first'', ''second'']) ''users''
     [(''username'', JStr (if startsWith ''nobody'' ''@'' then drop 1 ''nobody'' else ''nobody''))]
     = (Inr (Some [''first'', ''second'']), [''http://host/api/proxy/gitlabci/users?username=nobody''])"
    by (simp add: startsWith_def stub_users_request)
  have c: "\<exists>message. fst (getUserDetail stub_client (respond 200 ([] :: string list)) ''nobody'')
       = Inl (Error message)"
    using getUserDetail_not_found [OF a] by simp
  have d: "fst (getUserDetail stub_client (respond 200 [''first'', ''second'']) ''nobody'')
       = Inr ''first''"
    using getUserDetail_not_found [OF b] by simp
  have e: "fst (getUserDetail stub_client (respond 200 ([] :: string list)) ''nobody'')
       = Inl (Error ''user nobody does not exist'')"
    using a by (simp add: getUserDetail_def Let_def bind_def throw_def startsWith_def)
  from a b c d e show ?thesis by blast
qed

text \<open>
  Claim C8. \<open>getUserDetail\<close> strips one leading \<open>@\<close> from the handle before it searches:
  the call with \<open>@u\<close> searches for \<open>u\<close> as it stands, and when \<open>u\<close> does not itself start
  with \<open>@\<close> the calls with \<open>@u\<close> and with \<open>u\<close> issue the same request and return the
  same result.
\<close>

theorem getUserDetail_strip_at:
  "(\<not> startsWith u ''@'' \<longrightarrow>
      getUserDetail this fetch (''@'' @ u) = getUserDetail this fetch u)
   \<and> getUserDetail this fetch (''@'' @ u)
      = bind (callApi this fetch ''users'' [(''username'', JStr u)])
          (\<lambda>candidates.
             case first candidates of
               None \<Rightarrow> throw (Error (''user '' @ u @ '' does not exist''))
             | Some userDetail \<Rightarrow> return userDetail)"
  by (simp add: getUserDetail_def startsWith_def Let_def)

theorem getUserDetail_strip_at_witness:
  "\<not> startsWith ''alice'' ''@''
   \<and> getUserDetail stub_client (respond 200 [''profile'']) ''@alice''
     = getUserDetail stub_client (respond 200 [''profile'']) ''alice''
   \<and> getUserDetail stub_client (respond 200 [''profile'']) ''@alice''
     = (Inr ''profile'', [''http://host/api/proxy/gitlabci/users?username=alice''])"
proof -
  have n: "\<not> startsWith ''alice'' ''@''"
    by (simp add: startsWith_def)
  have e: "getUserDetail stub_client (respond 200 [''profile'']) ''@alice''
     = getUserDetail stub_client (respond 200 [''profile'']) ''alice''"
    using getUserDetail_strip_at [of "''alice''" stub_client "respond 200 [''profile'']"] n
    by simp
  have r: "getUserDetail stub_client (respond 200 [''profile'']) ''@alice''
     = (Inr ''profile'', [''http://host/api/proxy/gitlabci/users?username=alice''])"
    using getUserDetail_strip_at [of "''alice''" stub_client "respond 200 [''profile'']"]
    by (simp add: callApi_def Let_def bind_def return_def stub_client_simps respond_def
        URLSearchParams_toString_def form_encode_def alphanumeric_def)
  from n e r show ?thesis by blast
qed

subsection \<open>The project name on pipelines and issues\<close>

lemma stub_callApi:
  "callApi stub_client (respond 200 body) path []
     = (Inr (Some body), [''http://host/api/proxy/gitlabci/'' @ path @ ''?''])"
  "code \<noteq> 200 \<Longrightarrow> callApi stub_client (respond code body) path []
     = (Inr None, [''http://host/api/proxy/gitlabci/'' @ path @ ''?''])"
  by (simp_all add: callApi_def Let_def stub_client_simps respond_def URLSearchParams_toString_def)

text \<open>
  Claim C9. In \<open>getPipelineSummary\<close> and in \<open>getIssuesSummary\<close>, once the list and then
  the parent project have been fetched, the call succeeds and every element of the list
  carries as \<open>project_name\<close> the \<open>name\<close> of the project object, its other fields
  unchanged; when the project fetch returned no data, \<open>project_name\<close> is absent on every
  element.
\<close>

theorem project_name_annotation:
  "(callApi this fetch (''projects/'' @ str projectID @ ''/pipelines'') []
      = (Inr (Some pipelineObjects), t)
    \<and> callApi this fetch' (''projects/'' @ str projectID) [] = (Inr projectObj, t')
    \<longrightarrow> (\<exists>annotated.
          getPipelineSummary this fetch fetch' projectID = (Inr (Some annotated), t @ t')
          \<and> length annotated = length pipelineObjects
          \<and> (\<forall>i < length pipelineObjects.
                PipelineObject.project_name (annotated ! i) = name_of projectObj
                \<and> (projectObj = None \<longrightarrow> PipelineObject.project_name (annotated ! i) = None)
                \<and> PipelineObject.more (annotated ! i)
                    = PipelineObject.more (pipelineObjects ! i))))
   \<and> (callApi this fetch'' (''projects/'' @ projectId @ ''/issues'') []
      = (Inr (Some issuesObject), u)
    \<and> callApi this fetch' (''projects/'' @ projectId) [] = (Inr projectObj', u')
    \<longrightarrow> (\<exists>annotated.
          getIssuesSummary this fetch'' fetch' projectId = (Inr (Some annotated), u @ u')
          \<and> length annotated = length issuesObject
          \<and> (\<forall>i < length issuesObject.
                IssueObject.project_name (annotated ! i) = name_of projectObj'
                \<and> (projectObj' = None \<longrightarrow> IssueObject.project_name (annotated ! i) = None)
                \<and> IssueObject.more (annotated ! i) = IssueObject.more (issuesObject ! i))))"
  by (auto simp add: getPipelineSummary_def getIssuesSummary_def bind_def return_def)

theorem project_name_annotation_witness:
  "callApi stub_client (respond 200 pipelines) (''projects/'' @ str (Some ''7'') @ ''/pipelines'') []
     = (Inr (Some pipelines), [''http://host/api/proxy/gitlabci/projects/7/pipelines?''])
   \<and> callApi stub_client (respond 404 project) (''projects/'' @ str (Some ''7'')) []
     = (Inr None, [''http://host/api/proxy/gitlabci/projects/7?''])
   \<and> getPipelineSummary stub_client (respond 200 pipelines) (respond 404 project) (Some ''7'')
     = (Inr (Some [\<lparr> PipelineObject.project_name = None \<rparr>,
                   \<lparr> PipelineObject.project_name = None \<rparr>]),
        [''http://host/api/proxy/gitlabci/projects/7/pipelines?'',
         ''http://host/api/proxy/gitlabci/projects/7?''])
   \<and> callApi stub_client (respond 200 issues) (''projects/'' @ ''7'' @ ''/issues'') []
     = (Inr (Some issues), [''http://host/api/proxy/gitlabci/projects/7/issues?''])
   \<and> callApi stub_client (respond 200 project) (''projects/'' @ ''7'') []
     = (Inr (Some project), [''http://host/api/proxy/gitlabci/projects/7?''])
   \<and> getIssuesSummary stub_client (respond 200 issues) (respond 200 project) ''7''
     = (Inr (Some [\<lparr> IssueObject.project_name = Some ''demo'' \<rparr>]),
        [''http://host/api/proxy/gitlabci/projects/7/issues?'',
         ''http://host/api/proxy/gitlabci/projects/7?''])"
proof -
  have a: "callApi stub_client (respond 200 pipelines)
             (''projects/'' @ str (Some ''7'') @ ''/pipelines'') []
     = (Inr (Some pipelines), [''http://host/api/proxy/gitlabci/projects/7/pipelines?''])"
    by (simp add: stub_callApi)
  have b: "callApi stub_client (respond 404 project) (''projects/'' @ str (Some ''7'')) []
     = (Inr None, [''http://host/api/proxy/gitlabci/projects/7?''])"
    by (simp add: stub_callApi)
  have c: "callApi stub_client (respond 200 issues) (''projects/'' @ ''7'' @ ''/issues'') []
     = (Inr (Some issues), [''http://host/api/proxy/gitlabci/projects/7/issues?''])"
    by (simp add: stub_callApi)
  have d: "callApi stub_client (respond 200 project) (''projects/'' @ ''7'') []
     = (Inr (Some project), [''http://host/api/proxy/gitlabci/projects/7?''])"
    by (simp add: stub_callApi)
  note inst = project_name_annotation [of stub_client "respond 200 pipelines" "Some ''7''" pipelines
      "[''http://host/api/proxy/gitlabci/projects/7/pipelines?'']" "respond 404 project" None
      "[''http://host/api/proxy/gitlabci/projects/7?'']"
      "respond 200 issues" "''7''" issues "[''http://host/api/proxy/gitlabci/projects/7/issues?'']"
      "Some project" "[''http://host/api/proxy/gitlabci/projects/7?'']"]
  have e: "getPipelineSummary stub_client (respond 200 pipelines) (respond 404 project) (Some ''7'')
     = (Inr (Some [\<lparr> PipelineObject.project_name = None \<rparr>,
                   \<lparr> PipelineObject.project_name = None \<rparr>]),
        [''http://host/api/proxy/gitlabci/projects/7/pipelines?'',
         ''http://host/api/proxy/gitlabci/projects/7?''])"
    using a b by (simp add: getPipelineSummary_def bind_def return_def pipelines_def)
  have f: "getIssuesSummary stub_client (respond 200 issues) (respond 200 project) ''7''
     = (Inr (Some [\<lparr> IssueObject.project_name = Some ''demo'' \<rparr>]),
        [''http://host/api/proxy/gitlabci/projects/7/issues?'',
         ''http://host/api/proxy/gitlabci/projects/7?''])"
    using c d by (simp add: getIssuesSummary_def bind_def return_def issues_def project_def)
  from inst a b c d e f show ?thesis by blast
qed

subsection \<open>The query string\<close>

lemma hex_char_not_amp: "n < 16 \<Longrightarrow> hex_char n \<noteq> CHR ''&''"
proof
  assume n: "n < 16" and "hex_char n = CHR ''&''"
  then have "(of_char (hex_char n) :: nat) = of_char CHR ''&''" by simp
  then show False using n by (simp add: hex_char_def split: if_splits)
qed

lemma percent_no_amp: "CHR ''&'' \<notin> set (percent c)"
proof -
  have "(of_char c :: nat) < 256" by simp
  then have "(of_char c :: nat) div 16 < 16" "(of_char c :: nat) mod 16 < 16" by arith+
  then have "hex_char (of_char c div 16) \<noteq> CHR ''&''" "hex_char (of_char c mod 16) \<noteq> CHR ''&''"
    by (simp_all add: hex_char_not_amp)
  then show ?thesis
    by (simp add: percent_def)
qed

lemma form_encode_no_amp: "CHR ''&'' \<notin> set (form_encode s)"
  using percent_no_amp by (auto simp add: form_encode_def alphanumeric_def split: if_splits)

lemma split_on_free: "c \<notin> set x \<Longrightarrow> split_on c x = [x]"
  by (induction x) auto

lemma split_on_append: "c \<notin> set x \<Longrightarrow> split_on c (x @ c # rest) = x # split_on c rest"
  by (induction x) auto

lemma split_on_intercalate:
  "segs \<noteq> [] \<Longrightarrow> \<forall>s \<in> set segs. c \<notin> set s \<Longrightarrow> split_on c (intercalate [c] segs) = segs"
proof (induction segs)
  case Nil
  then show ?case by simp
next
  case (Cons x xs)
  then show ?case
    by (cases xs) (simp_all add: split_on_free split_on_append)
qed

lemma form_encode_undefined: "form_encode ''undefined'' = ''undefined''"
  by (simp add: form_encode_def alphanumeric_def)

text \<open>
  Claim C2, as amended. For every call of the executor, once discovery has resolved,
  no entry of the query mapping is left out of the query string of the request: its
  non-empty pieces between \<open>&\<close> are, in the order of the mapping, one \<open>name=value\<close> for
  each entry, the value converted with \<open>ToString\<close>, so that an entry whose value is
  \<open>undefined\<close> is sent as \<open>name=undefined\<close>.
\<close>

theorem callApi_query_string:
  assumes "getBaseUrl (discoveryApi this) ''proxy'' = Inr base"
  shows "\<exists>qs. snd (callApi this fetch path query)
                 = [base @ proxyPath this @ ''/'' @ path @ ''?'' @ qs]
          \<and> filter (\<lambda>p. p \<noteq> []) (split_on CHR ''&'' qs)
              = map (\<lambda>(k, v). form_encode k @ ''='' @ form_encode (ToString v)) query
          \<and> (\<forall>k. (k, JUndefined) \<in> set query \<longrightarrow>
                form_encode k @ ''=undefined'' \<in> set (split_on CHR ''&'' qs))"
proof -
  let ?seg = "\<lambda>(k, v). form_encode k @ ''='' @ form_encode (ToString v)"
  let ?qs = "URLSearchParams_toString query"
  have log: "snd (callApi this fetch path query)
               = [base @ proxyPath this @ ''/'' @ path @ ''?'' @ ?qs]"
    using assms by (simp add: callApi_def Let_def split: sum.splits)
  have free: "\<forall>s \<in> set (map ?seg query). CHR ''&'' \<notin> set s"
    by (auto simp add: form_encode_no_amp)
  have nonempty: "\<forall>s \<in> set (map ?seg query). s \<noteq> []"
    by auto
  have split: "filter (\<lambda>p. p \<noteq> []) (split_on CHR ''&'' ?qs) = map ?seg query
               \<and> set (map ?seg query) \<subseteq> set (split_on CHR ''&'' ?qs)"
  proof (cases "query = []")
    case True
    then show ?thesis by (simp add: URLSearchParams_toString_def)
  next
    case False
    then have "split_on CHR ''&'' ?qs = map ?seg query"
      unfolding URLSearchParams_toString_def
      using split_on_intercalate [of "map ?seg query" "CHR ''&''"] free by simp
    then show ?thesis using nonempty by (simp add: filter_id_conv)
  qed
  have undef: "\<forall>k. (k, JUndefined) \<in> set query \<longrightarrow>
                form_encode k @ ''=undefined'' \<in> set (split_on CHR ''&'' ?qs)"
  proof (intro allI impI)
    fix k assume "(k, JUndefined) \<in> set query"
    then have "?seg (k, JUndefined) \<in> ?seg ` set query"
      by (rule imageI)
    then have "form_encode k @ ''='' @ ''undefined'' \<in> set (map ?seg query)"
      by (simp add: form_encode_undefined)
    then have "form_encode k @ ''='' @ ''undefined'' \<in> set (split_on CHR ''&'' ?qs)"
      using split by blast
    then show "form_encode k @ ''=undefined'' \<in> set (split_on CHR ''&'' ?qs)"
      by simp
  qed
  from log split undef show ?thesis by blast
qed

theorem callApi_query_string_witness:
  "getBaseUrl (discoveryApi stub_client) ''proxy'' = Inr ''http://host/api/proxy''
   \<and> snd (callApi stub_client (respond 200 ''body'') ''users''
            [(''per_page'', JUndefined), (''sort'', JStr ''desc'')])
     = [''http://host/api/proxy/gitlabci/users?per_page=undefined&sort=desc'']
   \<and> split_on CHR ''&'' ''per_page=undefined&sort=desc'' = [''per_page=undefined'', ''sort=desc'']"
proof -
  have d: "getBaseUrl (discoveryApi stub_client) ''proxy'' = Inr ''http://host/api/proxy''"
    by (simp add: stub_client_simps)
  have v: "snd (callApi stub_client (respond 200 ''body'') ''users''
            [(''per_page'', JUndefined), (''sort'', JStr ''desc'')])
     = [''http://host/api/proxy/gitlabci/users?per_page=undefined&sort=desc'']"
    by code_simp
  have s: "split_on CHR ''&'' ''per_page=undefined&sort=desc''
           = [''per_page=undefined'', ''sort=desc'']"
    by code_simp
  from callApi_query_string [OF d, of "respond 200 ''body''" "''users''"
      "[(''per_page'', JUndefined), (''sort'', JStr ''desc'')]"] d v s
  show ?thesis by simp
qed

text \<open>
  Claim C2 as stated fails: \<open>getMergeRequestsStatusSummary\<close> with an undefined count
  requests \<open>...?per_page=undefined\<close>, not the URL whose query string omits the entry.
\<close>

theorem undefined_not_omitted_counterexample:
  "snd (getMergeRequestsStatusSummary stub_client (respond 200 ([] :: string list)) (Some ''7'') None)
     = [''http://host/api/proxy/gitlabci/projects/7/merge_requests?per_page=undefined'']
   \<and> omitting_undefined [(''per_page'', number None)] = []
   \<and> snd (getMergeRequestsStatusSummary stub_client (respond 200 ([] :: string list)) (Some ''7'') None)
     \<noteq> [''http://host/api/proxy/gitlabci/projects/7/merge_requests?''
          @ omitting_undefined [(''per_page'', number None)]]"
  by code_simp

subsection \<open>Contributor enrichment\<close>

lemma foldl_setAvatar:
  assumes "i < length xs"
  shows "foldl (setAvatar i) xs es = xs[i := enriched (Some es) (xs ! i)]"
proof (induction es rule: rev_induct)
  case Nil
  then show ?case by (simp add: enriched_def matches_def)
next
  case (snoc e es)
  then show ?case using assms
    by (simp add: setAvatar_def enriched_def matches_def)
qed

lemma loop_characterisation:
  assumes "\<forall>j. i \<le> j \<and> j < length xs \<longrightarrow>
             fst (callApi this fetch ''users'' [(''search'', JStr (email (xs ! j)))]) = Inr (up j)"
  shows "\<exists>ys. fst (getUserProfilesData_loop this fetch i xs) = Inr ys \<and> length ys = length xs
           \<and> (\<forall>j<length xs. ys ! j = (if j < i then xs ! j else enriched (up j) (xs ! j)))"
  using assms
proof (induction "length xs - i" arbitrary: i xs)
  case 0
  then show ?case by (simp add: getUserProfilesData_loop.simps)
next
  case (Suc n)
  then have lt: "i < length xs" by simp
  obtain t where c: "callApi this fetch ''users'' [(''search'', JStr (email (xs ! i)))] = (Inr (up i), t)"
    using Suc.prems lt by (metis le_refl prod.collapse)
  let ?xs' = "case up i of None \<Rightarrow> xs | Some entries \<Rightarrow> forEach entries (setAvatar i) xs"
  have xs': "?xs' = xs[i := enriched (up i) (xs ! i)]"
    using lt by (cases "up i") (simp_all add: forEach_def foldl_setAvatar enriched_def)
  have em: "email (enriched p c) = email c" for p :: "'a ContributorData_scheme list option" and c :: "'b ContributorData_scheme"
    by (cases p) (simp_all add: enriched_def)
  have len: "length ?xs' = length xs" by (simp add: xs')
  have "n = length ?xs' - (i + 1)" using Suc.hyps(2) len by simp
  moreover have "\<forall>j. i + 1 \<le> j \<and> j < length ?xs' \<longrightarrow>
             fst (callApi this fetch ''users'' [(''search'', JStr (email (?xs' ! j)))]) = Inr (up j)"
    using Suc.prems by (simp add: xs')
  ultimately obtain ys where ys: "fst (getUserProfilesData_loop this fetch (i + 1) ?xs') = Inr ys"
      "length ys = length ?xs'"
      "\<forall>j<length ?xs'. ys ! j = (if j < i + 1 then ?xs' ! j else enriched (up j) (?xs' ! j))"
    using Suc.hyps(1) [of ?xs' "i + 1"] by blast
  have "fst (getUserProfilesData_loop this fetch i xs) = Inr ys"
    using lt c ys(1) by (subst getUserProfilesData_loop.simps) (simp add: split_beta)
  moreover have "length ys = length xs" using ys(2) len by simp
  moreover have "\<forall>j<length xs. ys ! j = (if j < i then xs ! j else enriched (up j) (xs ! j))"
  proof (intro allI impI)
    fix j assume j: "j < length xs"
    then have "ys ! j = (if j < i + 1 then ?xs' ! j else enriched (up j) (?xs' ! j))"
      using ys(3) len by simp
    then show "ys ! j = (if j < i then xs ! j else enriched (up j) (xs ! j))"
      using j lt by (cases "j = i") (auto simp add: xs')
  qed
  ultimately show ?case by blast
qed

lemma length_forEach_setAvatar:
  "length (forEach es (setAvatar i) cd) = length cd"
  unfolding forEach_def by (induction es arbitrary: cd) (simp_all add: setAvatar_def)

lemma email_enriched: "email (enriched p c) = email c"
  by (cases p) (simp_all add: enriched_def)

lemma loop_log:
  assumes "\<forall>j. i \<le> j \<and> j < length xs \<longrightarrow>
             fst (callApi this fetch ''users'' [(''search'', JStr (email (xs ! j)))]) = Inr (up j)"
  shows "snd (getUserProfilesData_loop this fetch i xs)
         = concat (map (\<lambda>j. snd (callApi this fetch ''users'' [(''search'', JStr (email (xs ! j)))]))
             [i..<length xs])"
  using assms
proof (induction "length xs - i" arbitrary: i xs)
  case 0
  then show ?case by (simp add: getUserProfilesData_loop.simps)
next
  case (Suc n)
  then have lt: "i < length xs" by simp
  obtain t where c: "callApi this fetch ''users'' [(''search'', JStr (email (xs ! i)))] = (Inr (up i), t)"
    using Suc.prems lt by (metis le_refl prod.collapse)
  let ?xs' = "case up i of None \<Rightarrow> xs | Some entries \<Rightarrow> forEach entries (setAvatar i) xs"
  have xs': "?xs' = xs[i := enriched (up i) (xs ! i)]"
    using lt by (cases "up i") (simp_all add: forEach_def foldl_setAvatar enriched_def)
  have em: "email (?xs' ! j) = email (xs ! j)" if "j < length xs" for j
    using that by (cases "j = i") (simp_all add: xs' email_enriched)
  have len: "length ?xs' = length xs" by (simp add: xs')
  have "n = length ?xs' - Suc i" using Suc.hyps(2) len by simp
  moreover have "\<forall>j. Suc i \<le> j \<and> j < length ?xs' \<longrightarrow>
             fst (callApi this fetch ''users'' [(''search'', JStr (email (?xs' ! j)))]) = Inr (up j)"
    using Suc.prems len em by simp
  ultimately have "snd (getUserProfilesData_loop this fetch (Suc i) ?xs')
         = concat (map (\<lambda>j. snd (callApi this fetch ''users'' [(''search'', JStr (email (?xs' ! j)))]))
             [Suc i..<length ?xs'])"
    by (rule Suc.hyps(1))
  also have "\<dots> = concat (map (\<lambda>j. snd (callApi this fetch ''users'' [(''search'', JStr (email (xs ! j)))]))
             [Suc i..<length xs])"
    unfolding len by (rule arg_cong [where f = concat], rule map_cong) (simp_all add: em)
  finally have rest: "snd (getUserProfilesData_loop this fetch (Suc i) ?xs')
         = concat (map (\<lambda>j. snd (callApi this fetch ''users'' [(''search'', JStr (email (xs ! j)))]))
             [Suc i..<length xs])" .
  have "snd (getUserProfilesData_loop this fetch i xs)
        = t @ snd (getUserProfilesData_loop this fetch (Suc i) ?xs')"
    using lt c by (subst getUserProfilesData_loop.simps) (simp add: split_beta)
  then show ?case
    using rest c lt by (simp add: upt_conv_Cons)
qed

lemma stub_respond_200: "fst (callApi stub_client (respond 200 body) path query) = Inr (Some body)"
  by (simp add: callApi_def Let_def stub_client_simps respond_def)

text \<open>
  Claim C1, as amended. When every search returns, enrichment gives every contributor
  of the list the \<open>avatar_url\<close> of the LAST entry of its search response whose name
  equals the contributor's name (each matching entry overwrites the one before); a
  contributor whose search returned no data or no entry of that name is left as it
  was.
\<close>

theorem enrichment_last_match:
  assumes "\<forall>i < length contributorsData.
             fst (callApi this fetch ''users'' [(''search'', JStr (email (contributorsData ! i)))])
             = Inr (userProfile i)"
  shows "\<exists>result. fst (getUserProfilesData this fetch (Some contributorsData)) = Inr (Some result)
          \<and> length result = length contributorsData
          \<and> (\<forall>i < length contributorsData.
                (userProfile i = None \<longrightarrow> result ! i = contributorsData ! i)
                \<and> (\<forall>entries. userProfile i = Some entries \<longrightarrow>
                     (let same = filter (\<lambda>entry. name entry = name (contributorsData ! i)) entries
                      in if same = [] then result ! i = contributorsData ! i
                         else result ! i
                              = (contributorsData ! i)\<lparr>avatar_url := avatar_url (last same)\<rparr>)))"
proof -
  from assms obtain ys where ys:
      "fst (getUserProfilesData_loop this fetch 0 contributorsData) = Inr ys"
      "length ys = length contributorsData"
      "\<forall>j<length contributorsData. ys ! j = enriched (userProfile j) (contributorsData ! j)"
    using loop_characterisation [of 0 contributorsData this fetch userProfile] by auto
  have "fst (getUserProfilesData this fetch (Some contributorsData)) = Inr (Some ys)"
    using ys(1) by (cases "getUserProfilesData_loop this fetch 0 contributorsData")
      (simp add: getUserProfilesData_def bind_def return_def)
  moreover have "\<forall>i < length contributorsData.
                (userProfile i = None \<longrightarrow> ys ! i = contributorsData ! i)
                \<and> (\<forall>entries. userProfile i = Some entries \<longrightarrow>
                     (let same = filter (\<lambda>entry. name entry = name (contributorsData ! i)) entries
                      in if same = [] then ys ! i = contributorsData ! i
                         else ys ! i
                              = (contributorsData ! i)\<lparr>avatar_url := avatar_url (last same)\<rparr>))"
    using ys(3) by (simp add: enriched_def matches_def Let_def)
  ultimately show ?thesis using ys(2) by blast
qed

theorem enrichment_last_match_witness:
  "fst (callApi stub_client (respond 200 profiles) ''users'' [(''search'', JStr (email ann))])
     = Inr (Some profiles)
   \<and> fst (callApi stub_client (respond 200 profiles) ''users'' [(''search'', JStr (email bob))])
     = Inr (Some profiles)
   \<and> fst (getUserProfilesData stub_client (respond 200 profiles) (Some [ann, bob]))
     = Inr (Some [ann\<lparr>avatar_url := Some ''second.png''\<rparr>, bob\<lparr>avatar_url := Some ''bob.png''\<rparr>])"
proof -
  have h: "\<forall>i < length [ann, bob].
             fst (callApi stub_client (respond 200 profiles) ''users''
                    [(''search'', JStr (email ([ann, bob] ! i)))])
             = Inr ((\<lambda>i. Some profiles) i)"
    by (simp add: stub_respond_200)
  have v: "fst (getUserProfilesData stub_client (respond 200 profiles) (Some [ann, bob]))
     = Inr (Some [ann\<lparr>avatar_url := Some ''second.png''\<rparr>, bob\<lparr>avatar_url := Some ''bob.png''\<rparr>])"
    by code_simp
  from enrichment_last_match [OF h] v show ?thesis
    by (simp add: stub_respond_200)
qed

text \<open>
  Claim C1 as stated fails: with two entries named \<open>Ann\<close> in the response, the
  contributor Ann receives the avatar of the second, not of the first.
\<close>

theorem first_match_counterexample:
  "fst (getUserProfilesData stub_client (respond 200 profiles) (Some [ann]))
     = Inr (Some [ann\<lparr>avatar_url := Some ''second.png''\<rparr>])
   \<and> first_match_avatar profiles ann = Some ''first.png''
   \<and> fst (getUserProfilesData stub_client (respond 200 profiles) (Some [ann]))
     \<noteq> Inr (Some [ann\<lparr>avatar_url := first_match_avatar profiles ann\<rparr>])"
  by code_simp

lemma enrichment_completes:
  assumes "\<forall>i < length contributorsData. \<exists>userProfile.
             fst (callApi this fetch ''users'' [(''search'', JStr (email (contributorsData ! i)))])
             = Inr userProfile"
  shows "\<exists>result. fst (getUserProfilesData this fetch (Some contributorsData)) = Inr (Some result)
          \<and> length result = length contributorsData
          \<and> snd (getUserProfilesData this fetch (Some contributorsData))
              = concat (map (\<lambda>contributor.
                  snd (callApi this fetch ''users'' [(''search'', JStr (email contributor))]))
                  contributorsData)
          \<and> (\<forall>i < length contributorsData.
                (fst (callApi this fetch ''users''
                        [(''search'', JStr (email (contributorsData ! i)))]) = Inr None
                   \<longrightarrow> result ! i = contributorsData ! i)
                \<and> fst (getUserProfilesData this fetch (Some [contributorsData ! i]))
                    = Inr (Some [result ! i]))"
proof -
  from assms obtain userProfile where up:
    "\<forall>i < length contributorsData.
       fst (callApi this fetch ''users'' [(''search'', JStr (email (contributorsData ! i)))])
       = Inr (userProfile i)"
    by metis
  then obtain ys where ys:
      "fst (getUserProfilesData_loop this fetch 0 contributorsData) = Inr ys"
      "length ys = length contributorsData"
      "\<forall>j<length contributorsData. ys ! j = enriched (userProfile j) (contributorsData ! j)"
    using loop_characterisation [of 0 contributorsData this fetch userProfile] by auto
  have res: "fst (getUserProfilesData this fetch (Some contributorsData)) = Inr (Some ys)"
    using ys(1) by (cases "getUserProfilesData_loop this fetch 0 contributorsData")
      (simp add: getUserProfilesData_def bind_def return_def)
  have "snd (getUserProfilesData_loop this fetch 0 contributorsData)
        = concat (map (\<lambda>j. snd (callApi this fetch ''users''
                    [(''search'', JStr (email (contributorsData ! j)))]))
             [0..<length contributorsData])"
    using up by (intro loop_log [where up = userProfile]) simp
  also have "\<dots> = concat (map (\<lambda>contributor.
                  snd (callApi this fetch ''users'' [(''search'', JStr (email contributor))]))
                  (map (nth contributorsData) [0..<length contributorsData]))"
    by (simp add: comp_def)
  finally have "snd (getUserProfilesData_loop this fetch 0 contributorsData)
        = concat (map (\<lambda>contributor.
                  snd (callApi this fetch ''users'' [(''search'', JStr (email contributor))]))
                  contributorsData)"
    by (simp add: map_nth)
  then have log: "snd (getUserProfilesData this fetch (Some contributorsData))
        = concat (map (\<lambda>contributor.
                  snd (callApi this fetch ''users'' [(''search'', JStr (email contributor))]))
                  contributorsData)"
    using ys(1) by (cases "getUserProfilesData_loop this fetch 0 contributorsData")
      (simp add: getUserProfilesData_def bind_def return_def)
  have each: "(fst (callApi this fetch ''users''
                        [(''search'', JStr (email (contributorsData ! i)))]) = Inr None
                   \<longrightarrow> ys ! i = contributorsData ! i)
                \<and> fst (getUserProfilesData this fetch (Some [contributorsData ! i]))
                    = Inr (Some [ys ! i])"
    if i: "i < length contributorsData" for i
  proof -
    have u: "fst (callApi this fetch ''users'' [(''search'', JStr (email (contributorsData ! i)))])
             = Inr (userProfile i)"
      using up i by simp
    have "\<forall>j. 0 \<le> j \<and> j < length [contributorsData ! i] \<longrightarrow>
             fst (callApi this fetch ''users'' [(''search'', JStr (email ([contributorsData ! i] ! j)))])
             = Inr (userProfile i)"
      using u by simp
    from loop_characterisation [OF this] obtain zs where zs:
      "fst (getUserProfilesData_loop this fetch 0 [contributorsData ! i]) = Inr zs"
      "length zs = 1"
      "zs ! 0 = enriched (userProfile i) (contributorsData ! i)"
      by auto
    have "zs = [ys ! i]"
      using zs(2,3) ys(3) i by (cases zs) simp_all
    then have "fst (getUserProfilesData this fetch (Some [contributorsData ! i])) = Inr (Some [ys ! i])"
      using zs(1) by (cases "getUserProfilesData_loop this fetch 0 [contributorsData ! i]")
        (simp add: getUserProfilesData_def bind_def return_def)
    moreover have "fst (callApi this fetch ''users''
                        [(''search'', JStr (email (contributorsData ! i)))]) = Inr None
                   \<longrightarrow> ys ! i = contributorsData ! i"
      using u ys(3) i by (auto simp add: enriched_def)
    ultimately show ?thesis by blast
  qed
  from res ys(2) log each show ?thesis by blast
qed

lemma loop_rejected:
  assumes "i \<le> k" and "k < length xs"
    and "\<forall>j. i \<le> j \<and> j < k \<longrightarrow>
           fst (callApi this fetch ''users'' [(''search'', JStr (email (xs ! j)))]) = Inr (up j)"
    and "fst (callApi this fetch ''users'' [(''search'', JStr (email (xs ! k)))]) = Inl e"
  shows "fst (getUserProfilesData_loop this fetch i xs) = Inl e
       \<and> snd (getUserProfilesData_loop this fetch i xs)
         = concat (map (\<lambda>j. snd (callApi this fetch ''users'' [(''search'', JStr (email (xs ! j)))]))
             [i..<Suc k])"
  using assms
proof (induction "k - i" arbitrary: i xs)
  case 0
  then have ik: "i = k" by simp
  obtain t where c: "callApi this fetch ''users'' [(''search'', JStr (email (xs ! k)))] = (Inl e, t)"
    using "0.prems"(4) by (metis prod.collapse)
  show ?case
    using "0.prems"(2) c unfolding ik
    by (subst (1 2) getUserProfilesData_loop.simps) simp
next
  case (Suc n)
  then have lt: "i < k" and ltl: "i < length xs" by simp_all
  obtain t where c: "callApi this fetch ''users'' [(''search'', JStr (email (xs ! i)))] = (Inr (up i), t)"
    using Suc.prems(3) lt by (metis le_refl prod.collapse)
  let ?xs' = "case up i of None \<Rightarrow> xs | Some entries \<Rightarrow> forEach entries (setAvatar i) xs"
  have xs': "?xs' = xs[i := enriched (up i) (xs ! i)]"
    using ltl by (cases "up i") (simp_all add: forEach_def foldl_setAvatar enriched_def)
  have em: "email (?xs' ! j) = email (xs ! j)" if "j < length xs" for j
    using that by (cases "j = i") (simp_all add: xs' email_enriched)
  have len: "length ?xs' = length xs" by (simp add: xs')
  have "n = k - Suc i" using Suc.hyps(2) by simp
  moreover have "Suc i \<le> k" using lt by simp
  moreover have "k < length ?xs'" using Suc.prems(2) len by simp
  moreover have "\<forall>j. Suc i \<le> j \<and> j < k \<longrightarrow>
           fst (callApi this fetch ''users'' [(''search'', JStr (email (?xs' ! j)))]) = Inr (up j)"
    using Suc.prems(2,3) em by simp
  moreover have "fst (callApi this fetch ''users'' [(''search'', JStr (email (?xs' ! k)))]) = Inl e"
    using Suc.prems(2,4) em by simp
  ultimately have IH: "fst (getUserProfilesData_loop this fetch (Suc i) ?xs') = Inl e
       \<and> snd (getUserProfilesData_loop this fetch (Suc i) ?xs')
         = concat (map (\<lambda>j. snd (callApi this fetch ''users'' [(''search'', JStr (email (?xs' ! j)))]))
             [Suc i..<Suc k])"
    by (rule Suc.hyps(1))
  have "concat (map (\<lambda>j. snd (callApi this fetch ''users'' [(''search'', JStr (email (?xs' ! j)))]))
             [Suc i..<Suc k])
        = concat (map (\<lambda>j. snd (callApi this fetch ''users'' [(''search'', JStr (email (xs ! j)))]))
             [Suc i..<Suc k])"
    using Suc.prems(2) by (intro arg_cong [where f = concat] map_cong) (auto simp add: em)
  with IH have rest: "fst (getUserProfilesData_loop this fetch (Suc i) ?xs') = Inl e"
      "snd (getUserProfilesData_loop this fetch (Suc i) ?xs')
         = concat (map (\<lambda>j. snd (callApi this fetch ''users'' [(''search'', JStr (email (xs ! j)))]))
             [Suc i..<Suc k])"
    by simp_all
  have unfold: "getUserProfilesData_loop this fetch i xs
        = (fst (getUserProfilesData_loop this fetch (Suc i) ?xs'),
           t @ snd (getUserProfilesData_loop this fetch (Suc i) ?xs'))"
    using ltl c by (subst getUserProfilesData_loop.simps) (simp add: split_beta)
  show ?case
    using rest c lt unfolding unfold by (simp add: upt_conv_Cons)
qed

lemma concat_map_take:
  "n \<le> length xs \<Longrightarrow> map (\<lambda>j. f (xs ! j)) [0..<n] = map f (take n xs)"
  by (simp add: list_eq_iff_nth_eq)

lemma enrichment_rejected:
  assumes k: "k < length contributorsData"
    and before: "\<forall>i<k. \<exists>userProfile.
        fst (callApi this fetch ''users'' [(''search'', JStr (email (contributorsData ! i)))])
        = Inr userProfile"
    and rej: "fst (callApi this fetch ''users'' [(''search'', JStr (email (contributorsData ! k)))])
        = Inl e"
  shows "fst (getUserProfilesData this fetch (Some contributorsData)) = Inl e
       \<and> snd (getUserProfilesData this fetch (Some contributorsData))
         = concat (map (\<lambda>contributor.
               snd (callApi this fetch ''users'' [(''search'', JStr (email contributor))]))
             (take (Suc k) contributorsData))"
proof -
  from before obtain up where up:
    "\<forall>i<k. fst (callApi this fetch ''users'' [(''search'', JStr (email (contributorsData ! i)))])
       = Inr (up i)"
    by metis
  have l: "fst (getUserProfilesData_loop this fetch 0 contributorsData) = Inl e
       \<and> snd (getUserProfilesData_loop this fetch 0 contributorsData)
         = concat (map (\<lambda>j. snd (callApi this fetch ''users''
               [(''search'', JStr (email (contributorsData ! j)))])) [0..<Suc k])"
    using k up rej by (intro loop_rejected [where up = up]) simp_all
  have m: "map (\<lambda>j. snd (callApi this fetch ''users''
               [(''search'', JStr (email (contributorsData ! j)))])) [0..<Suc k]
        = map (\<lambda>contributor.
               snd (callApi this fetch ''users'' [(''search'', JStr (email contributor))]))
             (take (Suc k) contributorsData)"
    using k by (intro concat_map_take) simp
  have s: "snd (getUserProfilesData_loop this fetch 0 contributorsData)
         = concat (map (\<lambda>contributor.
               snd (callApi this fetch ''users'' [(''search'', JStr (email contributor))]))
             (take (Suc k) contributorsData))"
    using l by (simp only: m)
  obtain r t where rt: "getUserProfilesData_loop this fetch 0 contributorsData = (r, t)"
    by (cases "getUserProfilesData_loop this fetch 0 contributorsData")
  have "r = Inl e" using l rt by simp
  then have "getUserProfilesData this fetch (Some contributorsData) = (Inl e, t)"
    using rt by (simp add: getUserProfilesData_def bind_def)
  then show ?thesis using s rt by simp
qed

text \<open>
  Claim C5, as amended. When every search completes, with data or with none,
  enrichment does not raise: it issues one search for each contributor, in order; a
  contributor whose search yielded no data is left as it was; and every contributor
  ends as it would if it were enriched alone, whatever the other searches yielded.
  When the searches before some contributor complete and the search for that
  contributor is rejected, by discovery, by \<open>fetch\<close> or by the decoding of a 200
  response, enrichment ends with that rejection, and no later search is issued.
\<close>

theorem enrichment_skips_failed_search:
  "((\<forall>i < length contributorsData. \<exists>userProfile.
       fst (callApi this fetch ''users'' [(''search'', JStr (email (contributorsData ! i)))])
       = Inr userProfile)
    \<longrightarrow> (\<exists>result.
          fst (getUserProfilesData this fetch (Some contributorsData)) = Inr (Some result)
          \<and> length result = length contributorsData
          \<and> snd (getUserProfilesData this fetch (Some contributorsData))
              = concat (map (\<lambda>contributor.
                  snd (callApi this fetch ''users'' [(''search'', JStr (email contributor))]))
                  contributorsData)
          \<and> (\<forall>i < length contributorsData.
                (fst (callApi this fetch ''users''
                        [(''search'', JStr (email (contributorsData ! i)))]) = Inr None
                   \<longrightarrow> result ! i = contributorsData ! i)
                \<and> fst (getUserProfilesData this fetch (Some [contributorsData ! i]))
                    = Inr (Some [result ! i]))))
   \<and> (\<forall>k e.
        k < length contributorsData
        \<and> (\<forall>i < k. \<exists>userProfile.
              fst (callApi this fetch ''users''
                     [(''search'', JStr (email (contributorsData ! i)))])
              = Inr userProfile)
        \<and> (getBaseUrl (discoveryApi this) ''proxy'' = Inl e
           \<or> (\<exists>base. getBaseUrl (discoveryApi this) ''proxy'' = Inr base
                \<and> (fetch (base @ proxyPath this @ ''/'' @ ''users'' @ ''?''
                           @ URLSearchParams_toString
                               [(''search'', JStr (email (contributorsData ! k)))])
                     = Inl e
                   \<or> (\<exists>response.
                        fetch (base @ proxyPath this @ ''/'' @ ''users'' @ ''?''
                               @ URLSearchParams_toString
                                   [(''search'', JStr (email (contributorsData ! k)))])
                        = Inr response
                        \<and> status response = 200 \<and> json response = Inl e))))
        \<longrightarrow> fst (getUserProfilesData this fetch (Some contributorsData)) = Inl e
            \<and> snd (getUserProfilesData this fetch (Some contributorsData))
                = concat (map (\<lambda>contributor.
                    snd (callApi this fetch ''users'' [(''search'', JStr (email contributor))]))
                    (take (Suc k) contributorsData)))"
proof (rule conjI; intro allI impI)
  assume "\<forall>i < length contributorsData. \<exists>userProfile.
       fst (callApi this fetch ''users'' [(''search'', JStr (email (contributorsData ! i)))])
       = Inr userProfile"
  then show "\<exists>result.
          fst (getUserProfilesData this fetch (Some contributorsData)) = Inr (Some result)
          \<and> length result = length contributorsData
          \<and> snd (getUserProfilesData this fetch (Some contributorsData))
              = concat (map (\<lambda>contributor.
                  snd (callApi this fetch ''users'' [(''search'', JStr (email contributor))]))
                  contributorsData)
          \<and> (\<forall>i < length contributorsData.
                (fst (callApi this fetch ''users''
                        [(''search'', JStr (email (contributorsData ! i)))]) = Inr None
                   \<longrightarrow> result ! i = contributorsData ! i)
                \<and> fst (getUserProfilesData this fetch (Some [contributorsData ! i]))
                    = Inr (Some [result ! i]))"
    by (rule enrichment_completes)
next
  fix k e
  assume h: "k < length contributorsData
        \<and> (\<forall>i < k. \<exists>userProfile.
              fst (callApi this fetch ''users''
                     [(''search'', JStr (email (contributorsData ! i)))])
              = Inr userProfile)
        \<and> (getBaseUrl (discoveryApi this) ''proxy'' = Inl e
           \<or> (\<exists>base. getBaseUrl (discoveryApi this) ''proxy'' = Inr base
                \<and> (fetch (base @ proxyPath this @ ''/'' @ ''users'' @ ''?''
                           @ URLSearchParams_toString
                               [(''search'', JStr (email (contributorsData ! k)))])
                     = Inl e
                   \<or> (\<exists>response.
                        fetch (base @ proxyPath this @ ''/'' @ ''users'' @ ''?''
                               @ URLSearchParams_toString
                                   [(''search'', JStr (email (contributorsData ! k)))])
                        = Inr response
                        \<and> status response = 200 \<and> json response = Inl e))))"
  then have "fst (callApi this fetch ''users''
                [(''search'', JStr (email (contributorsData ! k)))]) = Inl e"
    using callApi_discovery_rejected [of this e fetch "''users''"
            "[(''search'', JStr (email (contributorsData ! k)))]"]
          callApi_fetch_rejected [of this _ fetch "''users''"
            "[(''search'', JStr (email (contributorsData ! k)))]" e]
          callApi_json_rejected [of this _ fetch "''users''"
            "[(''search'', JStr (email (contributorsData ! k)))]" _ e]
    by (elim conjE disjE exE) simp_all
  with h show "fst (getUserProfilesData this fetch (Some contributorsData)) = Inl e
            \<and> snd (getUserProfilesData this fetch (Some contributorsData))
                = concat (map (\<lambda>contributor.
                    snd (callApi this fetch ''users'' [(''search'', JStr (email contributor))]))
                    (take (Suc k) contributorsData))"
    by (intro enrichment_rejected) simp_all
qed

theorem enrichment_skips_failed_search_witness:
  "fst (callApi stub_client no_data_for_ann ''users'' [(''search'', JStr (email ann))]) = Inr None
   \<and> fst (callApi stub_client no_data_for_ann ''users'' [(''search'', JStr (email bob))])
     = Inr (Some profiles)
   \<and> getUserProfilesData stub_client no_data_for_ann (Some [ann, bob])
     = (Inr (Some [ann, bob\<lparr>avatar_url := Some ''bob.png''\<rparr>]),
        [''http://host/api/proxy/gitlabci/users?search=ann%40x.org'',
         ''http://host/api/proxy/gitlabci/users?search=bob%40x.org''])
   \<and> fst (callApi stub_client undecodable_for_bob ''users'' [(''search'', JStr (email ann))])
     = Inr (Some profiles)
   \<and> getBaseUrl (discoveryApi stub_client) ''proxy'' = Inr ''http://host/api/proxy''
   \<and> undecodable_for_bob (''http://host/api/proxy'' @ proxyPath stub_client @ ''/'' @ ''users''
         @ ''?'' @ URLSearchParams_toString [(''search'', JStr (email bob))])
     = Inr \<lparr> status = 200, json = Inl (Rejected ''SyntaxError: not JSON'') \<rparr>
   \<and> getUserProfilesData stub_client undecodable_for_bob (Some [ann, bob])
     = (Inl (Rejected ''SyntaxError: not JSON''),
        [''http://host/api/proxy/gitlabci/users?search=ann%40x.org'',
         ''http://host/api/proxy/gitlabci/users?search=bob%40x.org''])"
proof -
  have a: "fst (callApi stub_client no_data_for_ann ''users'' [(''search'', JStr (email ann))])
           = Inr None"
    by code_simp
  have b: "fst (callApi stub_client no_data_for_ann ''users'' [(''search'', JStr (email bob))])
           = Inr (Some profiles)"
    by code_simp
  have h: "\<forall>i < length [ann, bob]. \<exists>userProfile.
             fst (callApi stub_client no_data_for_ann ''users''
                    [(''search'', JStr (email ([ann, bob] ! i)))])
             = Inr userProfile"
    using a b by (simp add: less_Suc_eq)
  have v: "getUserProfilesData stub_client no_data_for_ann (Some [ann, bob])
     = (Inr (Some [ann, bob\<lparr>avatar_url := Some ''bob.png''\<rparr>]),
        [''http://host/api/proxy/gitlabci/users?search=ann%40x.org'',
         ''http://host/api/proxy/gitlabci/users?search=bob%40x.org''])"
    by code_simp
  have c: "fst (callApi stub_client undecodable_for_bob ''users'' [(''search'', JStr (email ann))])
           = Inr (Some profiles)"
    by code_simp
  have d: "getBaseUrl (discoveryApi stub_client) ''proxy'' = Inr ''http://host/api/proxy''"
    by (simp add: stub_client_simps)
  have f: "undecodable_for_bob (''http://host/api/proxy'' @ proxyPath stub_client @ ''/'' @ ''users''
         @ ''?'' @ URLSearchParams_toString [(''search'', JStr (email bob))])
     = Inr \<lparr> status = 200, json = Inl (Rejected ''SyntaxError: not JSON'') \<rparr>"
    by code_simp
  have g: "1 < length [ann, bob]
        \<and> (\<forall>i < 1. \<exists>userProfile.
              fst (callApi stub_client undecodable_for_bob ''users''
                     [(''search'', JStr (email ([ann, bob] ! i)))])
              = Inr userProfile)
        \<and> (getBaseUrl (discoveryApi stub_client) ''proxy'' = Inl (Rejected ''SyntaxError: not JSON'')
           \<or> (\<exists>base. getBaseUrl (discoveryApi stub_client) ''proxy'' = Inr base
                \<and> (undecodable_for_bob (base @ proxyPath stub_client @ ''/'' @ ''users'' @ ''?''
                           @ URLSearchParams_toString
                               [(''search'', JStr (email ([ann, bob] ! 1)))])
                     = Inl (Rejected ''SyntaxError: not JSON'')
                   \<or> (\<exists>response.
                        undecodable_for_bob (base @ proxyPath stub_client @ ''/'' @ ''users'' @ ''?''
                               @ URLSearchParams_toString
                                   [(''search'', JStr (email ([ann, bob] ! 1)))])
                        = Inr response
                        \<and> status response = 200
                        \<and> json response = Inl (Rejected ''SyntaxError: not JSON'')))))"
    using c d f by simp
  have w: "getUserProfilesData stub_client undecodable_for_bob (Some [ann, bob])
     = (Inl (Rejected ''SyntaxError: not JSON''),
        [''http://host/api/proxy/gitlabci/users?search=ann%40x.org'',
         ''http://host/api/proxy/gitlabci/users?search=bob%40x.org''])"
    by code_simp
  note inst = enrichment_skips_failed_search [of "[ann, bob]" stub_client no_data_for_ann]
  note inst' = enrichment_skips_failed_search [of "[ann, bob]" stub_client undecodable_for_bob,
      THEN conjunct2, THEN spec, THEN spec, THEN mp, OF g]
  from inst [THEN conjunct1, THEN mp, OF h] inst' a b v c d f w show ?thesis
    by simp
qed

text \<open>
  Claim C5 as stated fails: a search that is rejected (here the one for Bob, after
  Ann's has succeeded) ends the whole enrichment with that rejection.
\<close>

theorem enrichment_raises_counterexample:
  "getUserProfilesData stub_client rejecting_for_bob (Some [ann, bob])
     = (Inl (Rejected ''network error''),
        [''http://host/api/proxy/gitlabci/users?search=ann%40x.org'',
         ''http://host/api/proxy/gitlabci/users?search=bob%40x.org''])"
  by code_simp

subsection \<open>The configured base URL\<close>

lemma callApi_baseUrl: "callApi (this\<lparr>baseUrl := b\<rparr>) fetch path query = callApi this fetch path query"
  by (simp add: callApi_def Let_def split: sum.splits)

lemma loop_baseUrl:
  "getUserProfilesData_loop (this\<lparr>baseUrl := b\<rparr>) fetch i xs = getUserProfilesData_loop this fetch i xs"
proof (induction "length xs - i" arbitrary: i xs)
  case 0
  then show ?case by (simp add: getUserProfilesData_loop.simps)
next
  case (Suc n)
  have step: "getUserProfilesData_loop (this\<lparr>baseUrl := b\<rparr>) fetch (Suc i)
                (case p of None \<Rightarrow> xs | Some entries \<Rightarrow> forEach entries (setAvatar i) xs)
              = getUserProfilesData_loop this fetch (Suc i)
                (case p of None \<Rightarrow> xs | Some entries \<Rightarrow> forEach entries (setAvatar i) xs)"
    for p
    using Suc.hyps(2) by (intro Suc.hyps(1)) (cases p; simp add: length_forEach_setAvatar)
  show ?case
    by (subst getUserProfilesData_loop.simps, subst (2) getUserProfilesData_loop.simps)
       (simp add: callApi_baseUrl step split: prod.splits sum.splits)
qed

text \<open>
  Claim C10. The constructor makes \<open>baseUrl\<close> end with \<open>/\<close>, and two clients
  constructed from the same arguments but for \<open>baseUrl\<close> differ in that field only;
  the field is never read: for a client and the same client with any other \<open>baseUrl\<close>,
  the executor and every accessor issue the same requests and return the same result.
\<close>

theorem baseUrl_unused:
  "last (baseUrl (new_GitlabCIClient disc url1 pp cop)) = CHR ''/''
   \<and> new_GitlabCIClient disc url1 pp cop
       = (new_GitlabCIClient disc url2 pp cop)
           \<lparr>baseUrl := baseUrl (new_GitlabCIClient disc url1 pp cop)\<rparr>
   \<and> callApi (this\<lparr>baseUrl := b\<rparr>) fetch path query = callApi this fetch path query
   \<and> getPipelineSummary (this\<lparr>baseUrl := b\<rparr>) fetchP fetchR projectID
       = getPipelineSummary this fetchP fetchR projectID
   \<and> getIssuesSummary (this\<lparr>baseUrl := b\<rparr>) fetchI fetchR projectId
       = getIssuesSummary this fetchI fetchR projectId
   \<and> getProjectName (this\<lparr>baseUrl := b\<rparr>) fetchR projectID
       = getProjectName this fetchR projectID
   \<and> getMergeRequestsSummary (this\<lparr>baseUrl := b\<rparr>) fetchM projectID
       = getMergeRequestsSummary this fetchM projectID
   \<and> getMergeRequestsStatusSummary (this\<lparr>baseUrl := b\<rparr>) fetchM projectID count
       = getMergeRequestsStatusSummary this fetchM projectID count
   \<and> getContributorsSummary (this\<lparr>baseUrl := b\<rparr>) fetchC fetchU projectID
       = getContributorsSummary this fetchC fetchU projectID
   \<and> getLanguagesSummary (this\<lparr>baseUrl := b\<rparr>) fetchR projectID
       = getLanguagesSummary this fetchR projectID
   \<and> getProjectDetails (this\<lparr>baseUrl := b\<rparr>) fetchR projectSlug
       = getProjectDetails this fetchR projectSlug
   \<and> retryPipelineBuild (this\<lparr>baseUrl := b\<rparr>) fetchR projectID pipelineID
       = retryPipelineBuild this fetchR projectID pipelineID
   \<and> getCodeOwners (this\<lparr>baseUrl := b\<rparr>) fetchS parseCodeOwners' projectID branch filePath
       = getCodeOwners this fetchS parseCodeOwners' projectID branch filePath
   \<and> getUserDetail (this\<lparr>baseUrl := b\<rparr>) fetchD username = getUserDetail this fetchD username"
proof -
  have loop: "getUserProfilesData (this\<lparr>baseUrl := b\<rparr>) fetchU cd = getUserProfilesData this fetchU cd"
    for cd
    by (simp add: getUserProfilesData_def loop_baseUrl split: option.splits)
  have slash: "last (baseUrl (new_GitlabCIClient disc url1 pp cop)) = CHR ''/''"
    by (simp add: new_GitlabCIClient_def Let_def)
  have same: "new_GitlabCIClient disc url1 pp cop
       = (new_GitlabCIClient disc url2 pp cop)
           \<lparr>baseUrl := baseUrl (new_GitlabCIClient disc url1 pp cop)\<rparr>"
    by (simp add: new_GitlabCIClient_def Let_def)
  have owners: "getCodeOwners (this\<lparr>baseUrl := b\<rparr>) fetchS parseCodeOwners' projectID branch filePath
       = getCodeOwners this fetchS parseCodeOwners' projectID branch filePath"
    by (cases filePath) (simp_all add: getCodeOwners_def callApi_baseUrl)
  have details: "getProjectDetails (this\<lparr>baseUrl := b\<rparr>) fetchR projectSlug
       = getProjectDetails this fetchR projectSlug"
    by (cases projectSlug) (simp_all add: getProjectDetails_def callApi_baseUrl)
  show ?thesis
    using slash same owners details
    by (simp add: getPipelineSummary_def getIssuesSummary_def getProjectName_def
      getMergeRequestsSummary_def getMergeRequestsStatusSummary_def getContributorsSummary_def
      getLanguagesSummary_def retryPipelineBuild_def getUserDetail_def callApi_baseUrl loop)
qed

theorem baseUrl_unused_witness:
  "baseUrl (new_GitlabCIClient stub_discovery (Some ''https://example.com'') None None)
     = baseUrl (new_GitlabCIClient stub_discovery (Some ''https://example.com/'') None None)
   \<and> getProjectName (stub_client\<lparr>baseUrl := ''https://example.com/''\<rparr>) (respond 200 project)
       (Some ''7'')
     = (Inr (Some ''demo''), [''http://host/api/proxy/gitlabci/projects/7?''])
   \<and> getProjectName stub_client (respond 200 project) (Some ''7'')
     = (Inr (Some ''demo''), [''http://host/api/proxy/gitlabci/projects/7?''])"
proof -
  have a: "baseUrl (new_GitlabCIClient stub_discovery (Some ''https://example.com'') None None)
     = baseUrl (new_GitlabCIClient stub_discovery (Some ''https://example.com/'') None None)"
    by (simp add: new_GitlabCIClient_def)
  have b: "getProjectName stub_client (respond 200 project) (Some ''7'')
     = (Inr (Some ''demo''), [''http://host/api/proxy/gitlabci/projects/7?''])"
    by (simp add: getProjectName_def bind_def return_def stub_callApi project_def)
  have c: "getProjectName (stub_client\<lparr>baseUrl := ''https://example.com/''\<rparr>)
       (respond 200 project) (Some ''7'')
     = getProjectName stub_client (respond 200 project) (Some ''7'')"
    by (rule baseUrl_unused [THEN conjunct2, THEN conjunct2, THEN conjunct2, THEN conjunct2,
          THEN conjunct2, THEN conjunct1])
  from a b c show ?thesis by simp
qed

end
